theory Spec2Isabelle
  imports Main "HOL-Library.Word" "HOL-Library.AList"
begin

section \<open>Go values used by the deployer\<close>

text \<open>
  A Go \<open>map[string]string\<close> is a reference to a table kept on the heap. The table is
  modelled by its entries, in the order a \<open>range\<close> loop visits them; a reference is an
  address into the store of tables, or \<open>None\<close> for the nil map. The store grows by
  \<open>make\<close>, which hands out the next unused address.
\<close>

type_synonym gomap = "(string \<times> string) list"
type_synonym mapref = "nat option"
type_synonym heap = "gomap list"
type_synonym int32 = "32 word"

definition make_map :: "heap \<Rightarrow> nat \<times> heap" where
  "make_map h = (length h, h @ [[]])"

definition map_assign :: "heap \<Rightarrow> nat \<Rightarrow> string \<Rightarrow> string \<Rightarrow> heap" where
  "map_assign h a k v = (if a < length h then h[a := AList.update k v (h ! a)] else h)"

definition range_map :: "heap \<Rightarrow> mapref \<Rightarrow> gomap" where
  "range_map h r = (case r of None \<Rightarrow> [] | Some a \<Rightarrow> if a < length h then h ! a else [])"

definition map_index :: "heap \<Rightarrow> mapref \<Rightarrow> string \<Rightarrow> string option" where
  "map_index h r k = map_of (range_map h r) k"

definition allocated :: "heap \<Rightarrow> mapref \<Rightarrow> bool" where
  "allocated h r = (case r of None \<Rightarrow> True | Some a \<Rightarrow> a < length h)"

text \<open>\<open>fmt.Sprintf("%d", n)\<close>: the decimal digits of an integer, with a sign when negative.\<close>

definition digit :: "nat \<Rightarrow> char" where
  "digit n = ''0123456789'' ! n"

fun digits :: "nat \<Rightarrow> string" where
  "digits n = (if n < 10 then [digit n] else digits (n div 10) @ [digit (n mod 10)])"

declare digits.simps [simp del]

definition fmt_d :: "int \<Rightarrow> string" where
  "fmt_d n = (if n < 0 then CHR ''-'' # digits (nat (- n)) else digits (nat n))"

section \<open>Errors\<close>

text \<open>
  An error is either one the cluster API returned, or \<open>fmt.Errorf("<context>: %w", err)\<close>
  wrapping another error under a context message.
\<close>

datatype error = ApiError string | Errorf string error

section \<open>pkg/deployer/deployer.go\<close>

record SecretMount =
  SecretName :: string
  MountPath :: string

text \<open>
  \<open>corev1.EnvVar\<close> is passed through untouched and stays a type parameter.
  \<open>corev1.ResourceRequirements\<close> holds two resource lists, each a map that may be nil.
\<close>

record ResourceRequirements =
  Limits :: "gomap option"
  Requests :: "gomap option"

record 'env MCPServerSpec =
  spec_Name :: string
  spec_Namespace :: string
  spec_Image :: string
  spec_Port :: int32
  spec_EnvVars :: "'env list"
  spec_Args :: "string list"
  spec_SecretMounts :: "SecretMount list"
  spec_ServiceAccount :: string
  spec_Labels :: mapref
  spec_Annotations :: mapref
  spec_Resources :: "ResourceRequirements option"

record MCPServerStatus =
  st_Name :: string
  st_Namespace :: string
  st_Image :: string
  st_Available :: bool
  st_Endpoint :: string
  st_Labels :: mapref
  st_Annotations :: mapref
  st_Conditions :: "string list"

section \<open>The Kubernetes objects the deployer builds and reads\<close>

text \<open>
  Only the fields the deployer sets or reads are kept; every other field of the
  Kubernetes types keeps its zero value throughout. \<open>corev1.Protocol\<close>,
  \<open>corev1.ServiceType\<close>, the condition type and the condition status are Go string types.
\<close>

record ObjectMeta =
  om_Name :: string
  om_Namespace :: string
  om_Labels :: mapref
  om_Annotations :: mapref

record SecretVolumeSource =
  svs_SecretName :: string

record VolumeSource =
  vs_Secret :: "SecretVolumeSource option"

record Volume =
  vol_Name :: string
  vol_VolumeSource :: VolumeSource

record VolumeMount =
  vm_Name :: string
  vm_MountPath :: string
  vm_ReadOnly :: bool

record ContainerPort =
  cp_Name :: string
  cp_ContainerPort :: int32
  cp_Protocol :: string

record 'env Container =
  c_Name :: string
  c_Image :: string
  c_Ports :: "ContainerPort list"
  c_Env :: "'env list"
  c_Args :: "string list"
  c_VolumeMounts :: "VolumeMount list"
  c_Resources :: ResourceRequirements

record 'env PodSpec =
  ps_ServiceAccountName :: string
  ps_Containers :: "'env Container list"
  ps_Volumes :: "Volume list"

record 'env PodTemplateSpec =
  pt_ObjectMeta :: ObjectMeta
  pt_Spec :: "'env PodSpec"

record LabelSelector =
  ls_MatchLabels :: mapref

record 'env DeploymentSpec =
  ds_Replicas :: "int32 option"
  ds_Selector :: "LabelSelector option"
  ds_Template :: "'env PodTemplateSpec"

record DeploymentCondition =
  dc_Type :: string
  dc_Status :: string
  dc_Message :: string

record DeploymentStatus =
  dst_AvailableReplicas :: int32
  dst_Conditions :: "DeploymentCondition list"

record 'env Deployment =
  d_ObjectMeta :: ObjectMeta
  d_Spec :: "'env DeploymentSpec"
  d_Status :: DeploymentStatus

datatype intstr_Type = intstr_Int | intstr_String

record IntOrString =
  ios_Type :: intstr_Type
  ios_IntVal :: int32
  ios_StrVal :: string

record ServicePort =
  sp_Name :: string
  sp_Port :: int32
  sp_TargetPort :: IntOrString
  sp_Protocol :: string

record ServiceSpec =
  ss_Selector :: mapref
  ss_Ports :: "ServicePort list"
  ss_Type :: string

record Service =
  s_ObjectMeta :: ObjectMeta
  s_Spec :: ServiceSpec

definition ProtocolTCP :: string where
  "ProtocolTCP = ''TCP''"

definition ServiceTypeClusterIP :: string where
  "ServiceTypeClusterIP = ''ClusterIP''"

text \<open>\<open>intstr.FromInt\<close> stores its \<open>int\<close> argument as an \<open>int32\<close>.\<close>

definition FromInt :: "int \<Rightarrow> IntOrString" where
  "FromInt val = \<lparr>ios_Type = intstr_Int, ios_IntVal = word_of_int val, ios_StrVal = []\<rparr>"

section \<open>The cluster API\<close>

text \<open>
  The clientset is the deployer's collaborator: six primitives over a cluster state of
  any type \<open>'w\<close>. The create primitives are handed the store of maps, to read the
  labels and annotations of the manifest they receive. Every invocation of a primitive
  is appended, with its arguments, to a log of calls. The \<open>context.Context\<close> is passed
  through to the primitives untouched and is left out.
\<close>

datatype 'env api_call =
    DeploymentsCreate string "'env Deployment"
  | DeploymentsList string string
  | DeploymentsDelete string string
  | ServicesCreate string Service
  | ServicesGet string string
  | ServicesDelete string string

record ('env, 'w) Clientset =
  Deployments_Create :: "heap \<Rightarrow> 'w \<Rightarrow> string \<Rightarrow> 'env Deployment \<Rightarrow> error option \<times> 'w"
  Deployments_List :: "'w \<Rightarrow> string \<Rightarrow> string \<Rightarrow> (error + 'env Deployment list) \<times> 'w"
  Deployments_Delete :: "'w \<Rightarrow> string \<Rightarrow> string \<Rightarrow> error option \<times> 'w"
  Services_Create :: "heap \<Rightarrow> 'w \<Rightarrow> string \<Rightarrow> Service \<Rightarrow> error option \<times> 'w"
  Services_Get :: "'w \<Rightarrow> string \<Rightarrow> string \<Rightarrow> (error + Service) \<times> 'w"
  Services_Delete :: "'w \<Rightarrow> string \<Rightarrow> string \<Rightarrow> error option \<times> 'w"

record ('env, 'w) state =
  heap :: heap
  cluster :: 'w
  calls :: "'env api_call list"

section \<open>pkg/deployer/simple\_deployer.go\<close>

definition MCPServerLabel :: string where
  "MCPServerLabel = ''mcp.opendatahub.io/mcp-server''"

text \<open>\<open>getResources\<close>: the pointed-to requirements, or the zero value for a nil pointer.\<close>

definition getResources :: "ResourceRequirements option \<Rightarrow> ResourceRequirements" where
  "getResources resources =
     (case resources of
        Some r \<Rightarrow> r
      | None \<Rightarrow> \<lparr>Limits = None, Requests = None\<rparr>)"

text \<open>
  \<open>mergeLabels\<close>: \<open>make\<close> a new map, assign every entry the \<open>range\<close> over the user's map
  yields, then assign the required label. Returns the new map's address and the store.
\<close>

fun copy_labels :: "heap \<Rightarrow> nat \<Rightarrow> gomap \<Rightarrow> heap" where
  "copy_labels h labels [] = h"
| "copy_labels h labels ((k, v) # rest) = copy_labels (map_assign h labels k v) labels rest"

definition mergeLabels :: "heap \<Rightarrow> mapref \<Rightarrow> nat \<times> heap" where
  "mergeLabels h userLabels =
     (let (labels, h1) = make_map h;
          h2 = copy_labels h1 labels (range_map h userLabels);
          h3 = map_assign h2 labels MCPServerLabel ''true''
      in (labels, h3))"

text \<open>
  The loop of \<open>createDeployment\<close> over \<open>spec.SecretMounts\<close>, with its index \<open>i\<close> and the
  two slices it appends to.
\<close>

fun secret_volumes ::
  "nat \<Rightarrow> SecretMount list \<Rightarrow> Volume list \<Rightarrow> VolumeMount list \<Rightarrow> Volume list \<times> VolumeMount list" where
  "secret_volumes i [] volumes volumeMounts = (volumes, volumeMounts)"
| "secret_volumes i (secretMount # rest) volumes volumeMounts =
     (let volumeName = ''secret-'' @ fmt_d (int i)
      in secret_volumes (Suc i) rest
           (volumes @ [\<lparr>vol_Name = volumeName,
                         vol_VolumeSource = \<lparr>vs_Secret = Some \<lparr>svs_SecretName = SecretName secretMount\<rparr>\<rparr>\<rparr>])
           (volumeMounts @ [\<lparr>vm_Name = volumeName,
                              vm_MountPath = MountPath secretMount,
                              vm_ReadOnly = True\<rparr>]))"

text \<open>The manifest \<open>createDeployment\<close> builds (lines 92 to 156), with the store after \<open>mergeLabels\<close>.\<close>

definition createDeployment_manifest :: "heap \<Rightarrow> 'env MCPServerSpec \<Rightarrow> 'env Deployment \<times> heap" where
  "createDeployment_manifest h spec =
     (let (labels, h') = mergeLabels h (spec_Labels spec);
          replicas = (1 :: int32);
          (volumes, volumeMounts) = secret_volumes 0 (spec_SecretMounts spec) [] [];
          deployment =
            \<lparr>d_ObjectMeta =
               \<lparr>om_Name = spec_Name spec,
                om_Namespace = spec_Namespace spec,
                om_Labels = Some labels,
                om_Annotations = spec_Annotations spec\<rparr>,
             d_Spec =
               \<lparr>ds_Replicas = Some replicas,
                ds_Selector = Some \<lparr>ls_MatchLabels = Some labels\<rparr>,
                ds_Template =
                  \<lparr>pt_ObjectMeta =
                     \<lparr>om_Name = [],
                      om_Namespace = [],
                      om_Labels = Some labels,
                      om_Annotations = spec_Annotations spec\<rparr>,
                   pt_Spec =
                     \<lparr>ps_ServiceAccountName = spec_ServiceAccount spec,
                      ps_Containers =
                        [\<lparr>c_Name = ''mcp-server'',
                          c_Image = spec_Image spec,
                          c_Ports =
                            [\<lparr>cp_Name = ''mcp'',
                              cp_ContainerPort = spec_Port spec,
                              cp_Protocol = ProtocolTCP\<rparr>],
                          c_Env = spec_EnvVars spec,
                          c_Args = spec_Args spec,
                          c_VolumeMounts = volumeMounts,
                          c_Resources = getResources (spec_Resources spec)\<rparr>],
                      ps_Volumes = volumes\<rparr>\<rparr>\<rparr>,
             d_Status = \<lparr>dst_AvailableReplicas = 0, dst_Conditions = []\<rparr>\<rparr>
      in (deployment, h'))"

definition createDeployment ::
  "('env, 'w) Clientset \<Rightarrow> ('env, 'w) state \<Rightarrow> 'env MCPServerSpec \<Rightarrow> error option \<times> ('env, 'w) state" where
  "createDeployment cs st spec =
     (let (deployment, h') = createDeployment_manifest (heap st) spec;
          (err, w') = Deployments_Create cs h' (cluster st) (spec_Namespace spec) deployment;
          st' = \<lparr>heap = h', cluster = w',
                 calls = calls st @ [DeploymentsCreate (spec_Namespace spec) deployment]\<rparr>
      in case err of
           Some e \<Rightarrow> (Some (Errorf ''failed to create deployment'' e), st')
         | None \<Rightarrow> (None, st'))"

text \<open>The manifest \<open>createService\<close> builds (lines 168 to 189).\<close>

definition createService_manifest :: "heap \<Rightarrow> 'env MCPServerSpec \<Rightarrow> Service \<times> heap" where
  "createService_manifest h spec =
     (let (labels, h') = mergeLabels h (spec_Labels spec);
          service =
            \<lparr>s_ObjectMeta =
               \<lparr>om_Name = spec_Name spec,
                om_Namespace = spec_Namespace spec,
                om_Labels = Some labels,
                om_Annotations = spec_Annotations spec\<rparr>,
             s_Spec =
               \<lparr>ss_Selector = Some labels,
                ss_Ports =
                  [\<lparr>sp_Name = ''mcp'',
                    sp_Port = spec_Port spec,
                    sp_TargetPort = FromInt (sint (spec_Port spec)),
                    sp_Protocol = ProtocolTCP\<rparr>],
                ss_Type = ServiceTypeClusterIP\<rparr>\<rparr>
      in (service, h'))"

definition createService ::
  "('env, 'w) Clientset \<Rightarrow> ('env, 'w) state \<Rightarrow> 'env MCPServerSpec \<Rightarrow> error option \<times> ('env, 'w) state" where
  "createService cs st spec =
     (let (service, h') = createService_manifest (heap st) spec;
          (err, w') = Services_Create cs h' (cluster st) (spec_Namespace spec) service;
          st' = \<lparr>heap = h', cluster = w',
                 calls = calls st @ [ServicesCreate (spec_Namespace spec) service]\<rparr>
      in case err of
           Some e \<Rightarrow> (Some (Errorf ''failed to create service'' e), st')
         | None \<Rightarrow> (None, st'))"

definition DeployMCPServer ::
  "('env, 'w) Clientset \<Rightarrow> ('env, 'w) state \<Rightarrow> 'env MCPServerSpec \<Rightarrow> error option \<times> ('env, 'w) state" where
  "DeployMCPServer cs st spec =
     (case createDeployment cs st spec of
        (Some err, st1) \<Rightarrow> (Some (Errorf ''failed to create deployment'' err), st1)
      | (None, st1) \<Rightarrow>
          (case createService cs st1 spec of
             (Some err, st2) \<Rightarrow> (Some (Errorf ''failed to create service'' err), st2)
           | (None, st2) \<Rightarrow> (None, st2)))"

definition DeleteMCPServer ::
  "('env, 'w) Clientset \<Rightarrow> ('env, 'w) state \<Rightarrow> string \<Rightarrow> string \<Rightarrow> error option \<times> ('env, 'w) state" where
  "DeleteMCPServer cs st namespace name =
     (let (err, w1) = Deployments_Delete cs (cluster st) namespace name;
          st1 = st\<lparr>cluster := w1, calls := calls st @ [DeploymentsDelete namespace name]\<rparr>
      in case err of
           Some e \<Rightarrow> (Some (Errorf ''failed to delete deployment'' e), st1)
         | None \<Rightarrow>
             (let (err, w2) = Services_Delete cs (cluster st1) namespace name;
                  st2 = st1\<lparr>cluster := w2, calls := calls st1 @ [ServicesDelete namespace name]\<rparr>
              in case err of
                   Some e \<Rightarrow> (Some (Errorf ''failed to delete service'' e), st2)
                 | None \<Rightarrow> (None, st2)))"

text \<open>
  \<open>ListMCPServers\<close>. The inner loop appends one formatted line per condition; the body of
  the outer loop builds the status of one deployment, asking the cluster for the service
  of the same name only when the deployment is available; the outer loop appends the
  statuses in the order of the items listed.
\<close>

definition condition_line :: "DeploymentCondition \<Rightarrow> string" where
  "condition_line condition = dc_Type condition @ '': '' @ dc_Status condition @ '' - '' @ dc_Message condition"

fun append_conditions :: "MCPServerStatus \<Rightarrow> DeploymentCondition list \<Rightarrow> MCPServerStatus" where
  "append_conditions status [] = status"
| "append_conditions status (condition # rest) =
     append_conditions (status\<lparr>st_Conditions := st_Conditions status @ [condition_line condition]\<rparr>) rest"

definition server_status ::
  "('env, 'w) Clientset \<Rightarrow> string \<Rightarrow> ('env, 'w) state \<Rightarrow> 'env Deployment \<Rightarrow> MCPServerStatus \<times> ('env, 'w) state" where
  "server_status cs namespace st deployment =
     (let status0 =
            \<lparr>st_Name = om_Name (d_ObjectMeta deployment),
             st_Namespace = om_Namespace (d_ObjectMeta deployment),
             st_Image = [],
             st_Available = (0 < sint (dst_AvailableReplicas (d_Status deployment))),
             st_Endpoint = [],
             st_Labels = om_Labels (d_ObjectMeta deployment),
             st_Annotations = om_Annotations (d_ObjectMeta deployment),
             st_Conditions = []\<rparr>;
          status1 =
            (case ps_Containers (pt_Spec (ds_Template (d_Spec deployment))) of
               [] \<Rightarrow> status0
             | c # _ \<Rightarrow> status0\<lparr>st_Image := c_Image c\<rparr>);
          (status2, st') =
            (if st_Available status1 then
               (let (r, w') = Services_Get cs (cluster st) namespace (om_Name (d_ObjectMeta deployment));
                    st1 = st\<lparr>cluster := w',
                             calls := calls st @ [ServicesGet namespace (om_Name (d_ObjectMeta deployment))]\<rparr>
                in case r of
                     Inl err \<Rightarrow> (status1, st1)
                   | Inr service \<Rightarrow>
                       (case ss_Ports (s_Spec service) of
                          [] \<Rightarrow> (status1, st1)
                        | port # _ \<Rightarrow>
                            (status1\<lparr>st_Endpoint :=
                                om_Name (s_ObjectMeta service) @ '':'' @ fmt_d (sint (sp_Port port))\<rparr>, st1)))
             else (status1, st))
      in (append_conditions status2 (dst_Conditions (d_Status deployment)), st'))"

fun list_servers ::
  "('env, 'w) Clientset \<Rightarrow> string \<Rightarrow> 'env Deployment list \<Rightarrow> MCPServerStatus list \<Rightarrow> ('env, 'w) state
     \<Rightarrow> MCPServerStatus list \<times> ('env, 'w) state" where
  "list_servers cs namespace [] servers st = (servers, st)"
| "list_servers cs namespace (deployment # rest) servers st =
     (let (status, st') = server_status cs namespace st deployment
      in list_servers cs namespace rest (servers @ [status]) st')"

definition ListMCPServers ::
  "('env, 'w) Clientset \<Rightarrow> ('env, 'w) state \<Rightarrow> string
     \<Rightarrow> (error + MCPServerStatus list) \<times> ('env, 'w) state" where
  "ListMCPServers cs st namespace =
     (let listOptions = MCPServerLabel @ ''=true'';
          (r, w1) = Deployments_List cs (cluster st) namespace listOptions;
          st1 = st\<lparr>cluster := w1, calls := calls st @ [DeploymentsList namespace listOptions]\<rparr>
      in case r of
           Inl err \<Rightarrow> (Inl (Errorf ''failed to list deployments'' err), st1)
         | Inr items \<Rightarrow>
             (let (servers, st2) = list_servers cs namespace items [] st1
              in (Inr servers, st2)))"

section \<open>cmd/wizard/main.go\<close>

text \<open>
  The port prompt of \<open>deployServer\<close> (lines 154 to 167): the value it stores in
  \<open>spec.Port\<close> for the line read, or the error on which \<open>deployServer\<close> returns without
  deploying. \<open>strings.TrimSpace\<close> and \<open>strconv.ParseInt(_, 10, 32)\<close> belong to the Go
  library and are parameters.
\<close>

definition deployServer_port ::
  "(string \<Rightarrow> string) \<Rightarrow> (string \<Rightarrow> error + int) \<Rightarrow> string \<Rightarrow> error + int32" where
  "deployServer_port TrimSpace ParseInt line =
     (let portStr = TrimSpace line
      in if portStr = [] then Inr 8080
         else (case ParseInt portStr of
                 Inl err \<Rightarrow> Inl err
               | Inr port \<Rightarrow> Inr (word_of_int port)))"

section \<open>An in-memory cluster and a sample specification\<close>

text \<open>
  A small cluster held in memory, in the manner of a test double for the clientset: it
  keeps the objects created, refuses to create an object whose namespace and name are
  taken, and reports an error when asked for, or asked to delete, an object it does not
  hold. It serves as the concrete collaborator of the worked examples below; the
  theorems themselves hold for every clientset.
\<close>

record 'env fake_cluster =
  fake_deployments :: "'env Deployment list"
  fake_services :: "Service list"

definition named :: "string \<Rightarrow> string \<Rightarrow> ObjectMeta \<Rightarrow> bool" where
  "named namespace name m = (om_Namespace m = namespace \<and> om_Name m = name)"

definition fake_clientset :: "('env, 'env fake_cluster) Clientset" where
  "fake_clientset =
     \<lparr>Deployments_Create = (\<lambda>h w namespace d.
        if list_ex (\<lambda>x. named namespace (om_Name (d_ObjectMeta d)) (d_ObjectMeta x)) (fake_deployments w)
        then (Some (ApiError ''already exists''), w)
        else (None, w\<lparr>fake_deployments := fake_deployments w @ [d]\<rparr>)),
      Deployments_List = (\<lambda>w namespace selector.
        (Inr (filter (\<lambda>x. om_Namespace (d_ObjectMeta x) = namespace) (fake_deployments w)), w)),
      Deployments_Delete = (\<lambda>w namespace name.
        if list_ex (\<lambda>x. named namespace name (d_ObjectMeta x)) (fake_deployments w)
        then (None, w\<lparr>fake_deployments :=
                filter (\<lambda>x. \<not> named namespace name (d_ObjectMeta x)) (fake_deployments w)\<rparr>)
        else (Some (ApiError ''not found''), w)),
      Services_Create = (\<lambda>h w namespace s.
        if list_ex (\<lambda>x. named namespace (om_Name (s_ObjectMeta s)) (s_ObjectMeta x)) (fake_services w)
        then (Some (ApiError ''already exists''), w)
        else (None, w\<lparr>fake_services := fake_services w @ [s]\<rparr>)),
      Services_Get = (\<lambda>w namespace name.
        case filter (\<lambda>x. named namespace name (s_ObjectMeta x)) (fake_services w) of
          [] \<Rightarrow> (Inl (ApiError ''not found''), w)
        | s # _ \<Rightarrow> (Inr s, w)),
      Services_Delete = (\<lambda>w namespace name.
        if list_ex (\<lambda>x. named namespace name (s_ObjectMeta x)) (fake_services w)
        then (None, w\<lparr>fake_services :=
                filter (\<lambda>x. \<not> named namespace name (s_ObjectMeta x)) (fake_services w)\<rparr>)
        else (Some (ApiError ''not found''), w))\<rparr>"

text \<open>The same cluster behind an API whose listing of deployments is out of order.\<close>

definition unlistable_clientset :: "('env, 'env fake_cluster) Clientset" where
  "unlistable_clientset =
     fake_clientset\<lparr>Deployments_List := (\<lambda>w namespace selector. (Inl (ApiError ''unavailable''), w))\<rparr>"

text \<open>
  The caller's sample: a store holding a label map that claims the required key for
  itself and an annotation map, and a specification pointing at them, with two mounts of
  the same secret and no resources.
\<close>

definition sample_heap :: heap where
  "sample_heap =
     [[(''app'', ''demo''), (''mcp.opendatahub.io/mcp-server'', ''false'')],
      [(''owner'', ''team-a'')]]"

definition sample_spec :: "unit MCPServerSpec" where
  "sample_spec =
     \<lparr>spec_Name = ''s1'',
      spec_Namespace = ''ns1'',
      spec_Image = ''img:v1'',
      spec_Port = 9090,
      spec_EnvVars = [],
      spec_Args = [],
      spec_SecretMounts =
        [\<lparr>SecretName = ''sec1'', MountPath = ''/a''\<rparr>,
         \<lparr>SecretName = ''sec1'', MountPath = ''/b''\<rparr>],
      spec_ServiceAccount = [],
      spec_Labels = Some 0,
      spec_Annotations = Some 1,
      spec_Resources = None\<rparr>"

text \<open>The same specification with a label map that does not mention the required key.\<close>

definition plain_spec :: "unit MCPServerSpec" where
  "plain_spec = sample_spec\<lparr>spec_Labels := Some 1\<rparr>"

definition empty_cluster :: "unit fake_cluster" where
  "empty_cluster = \<lparr>fake_deployments = [], fake_services = []\<rparr>"

definition sample_state :: "(unit, unit fake_cluster) state" where
  "sample_state = \<lparr>heap = sample_heap, cluster = empty_cluster, calls = []\<rparr>"

text \<open>A specification whose \<open>Port\<close>, like every optional field, is left at its zero value.\<close>

definition portless_spec :: "unit MCPServerSpec" where
  "portless_spec =
     \<lparr>spec_Name = ''s1'',
      spec_Namespace = ''ns1'',
      spec_Image = ''img:v1'',
      spec_Port = 0,
      spec_EnvVars = [],
      spec_Args = [],
      spec_SecretMounts = [],
      spec_ServiceAccount = [],
      spec_Labels = None,
      spec_Annotations = None,
      spec_Resources = None\<rparr>"

text \<open>
  Stand-ins for the two library functions at the port prompt, for input in ASCII:
  trimming the white space at both ends of a line, and a parser that rejects its input.
\<close>

definition is_space :: "char \<Rightarrow> bool" where
  "is_space c = (c = CHR 0x09 \<or> c = CHR 0x0A \<or> c = CHR 0x0B \<or> c = CHR 0x0C \<or> c = CHR 0x0D \<or> c = CHR '' '')"

definition TrimSpace_ascii :: "string \<Rightarrow> string" where
  "TrimSpace_ascii s = rev (dropWhile is_space (rev (dropWhile is_space s)))"

definition ParseInt_rejecting :: "string \<Rightarrow> error + int" where
  "ParseInt_rejecting s = Inl (ApiError ''invalid syntax'')"

text \<open>
  A cluster that holds the sample's deployment and no service, as after a deployment whose
  second step failed.
\<close>

definition orphan_cluster :: "unit fake_cluster" where
  "orphan_cluster =
     \<lparr>fake_deployments = [fst (createDeployment_manifest sample_heap sample_spec)],
      fake_services = []\<rparr>"

definition orphan_state :: "(unit, unit fake_cluster) state" where
  "orphan_state = \<lparr>heap = sample_heap, cluster = orphan_cluster, calls = []\<rparr>"

text \<open>
  What a cluster reports when listing: three deployments in namespace \<open>ns1\<close>, of which
  \<open>svc-a\<close> has one available replica and two conditions, \<open>idle\<close> has none and declares no
  container, and \<open>lost\<close> has two; and two services on port 9000, one for \<open>svc-a\<close> and one
  for \<open>idle\<close>, none for \<open>lost\<close>.
\<close>

definition reported :: "string \<Rightarrow> int32 \<Rightarrow> unit Container list \<Rightarrow> DeploymentCondition list \<Rightarrow> unit Deployment" where
  "reported name replicas containers conditions =
     \<lparr>d_ObjectMeta = \<lparr>om_Name = name, om_Namespace = ''ns1'', om_Labels = Some 0, om_Annotations = Some 1\<rparr>,
      d_Spec =
        \<lparr>ds_Replicas = Some 1,
         ds_Selector = Some \<lparr>ls_MatchLabels = Some 0\<rparr>,
         ds_Template =
           \<lparr>pt_ObjectMeta = \<lparr>om_Name = [], om_Namespace = [], om_Labels = Some 0, om_Annotations = Some 1\<rparr>,
            pt_Spec = \<lparr>ps_ServiceAccountName = [], ps_Containers = containers, ps_Volumes = []\<rparr>\<rparr>\<rparr>,
      d_Status = \<lparr>dst_AvailableReplicas = replicas, dst_Conditions = conditions\<rparr>\<rparr>"

definition exposing :: "string \<Rightarrow> int32 \<Rightarrow> Service" where
  "exposing name port =
     \<lparr>s_ObjectMeta = \<lparr>om_Name = name, om_Namespace = ''ns1'', om_Labels = Some 0, om_Annotations = Some 1\<rparr>,
      s_Spec =
        \<lparr>ss_Selector = Some 0,
         ss_Ports = [\<lparr>sp_Name = ''mcp'', sp_Port = port, sp_TargetPort = FromInt (sint port),
                      sp_Protocol = ProtocolTCP\<rparr>],
         ss_Type = ServiceTypeClusterIP\<rparr>\<rparr>"

definition sample_container :: "unit Container" where
  "sample_container =
     \<lparr>c_Name = ''mcp-server'', c_Image = ''img:v1'', c_Ports = [], c_Env = [], c_Args = [],
      c_VolumeMounts = [], c_Resources = \<lparr>Limits = None, Requests = None\<rparr>\<rparr>"

definition sample_conditions :: "DeploymentCondition list" where
  "sample_conditions =
     [\<lparr>dc_Type = ''Available'', dc_Status = ''True'', dc_Message = ''ready''\<rparr>,
      \<lparr>dc_Type = ''Progressing'', dc_Status = ''True'', dc_Message = ''rolled out''\<rparr>]"

definition listing_items :: "unit Deployment list" where
  "listing_items =
     [reported ''svc-a'' 1 [sample_container] sample_conditions,
      reported ''idle'' 0 [] [],
      reported ''lost'' 2 [sample_container] []]"

definition listing_cluster :: "unit fake_cluster" where
  "listing_cluster =
     \<lparr>fake_deployments = listing_items,
      fake_services = [exposing ''svc-a'' 9000, exposing ''idle'' 9000]\<rparr>"

definition listing_state :: "(unit, unit fake_cluster) state" where
  "listing_state = \<lparr>heap = sample_heap, cluster = listing_cluster, calls = []\<rparr>"

section \<open>Properties of the store\<close>

lemma map_assign_length [simp]: "length (map_assign h a k v) = length h"
  by (simp add: map_assign_def)

lemma map_assign_other: "b \<noteq> a \<Longrightarrow> map_assign h a k v ! b = h ! b"
  by (simp add: map_assign_def)

lemma map_assign_same:
  "a < length h \<Longrightarrow> map_of (map_assign h a k v ! a) = (map_of (h ! a))(k \<mapsto> v)"
  unfolding map_assign_def by (simp only: if_True nth_list_update_eq update_conv')

lemma copy_labels_length [simp]: "length (copy_labels h a es) = length h"
  by (induction h a es rule: copy_labels.induct) simp_all

lemma copy_labels_other: "b \<noteq> a \<Longrightarrow> copy_labels h a es ! b = h ! b"
  by (induction h a es rule: copy_labels.induct) (simp_all add: map_assign_other)

lemma copy_labels_same:
  "a < length h \<Longrightarrow> map_of (copy_labels h a es ! a) = map_of (h ! a) ++ map_of (rev es)"
proof (induction h a es rule: copy_labels.induct)
  case (1 h labels)
  then show ?case by simp
next
  case (2 h labels k v rest)
  have "map_of (copy_labels (map_assign h labels k v) labels rest ! labels)
          = (map_of (h ! labels))(k \<mapsto> v) ++ map_of (rev rest)"
    using 2 by (simp only: copy_labels.simps map_assign_length map_assign_same)
  also have "\<dots> = map_of (h ! labels) ++ map_of (rev ((k, v) # rest))"
    by (simp add: map_add_upd_left)
  finally show ?case by simp
qed

lemma map_of_rev_distinct: "distinct (map fst es) \<Longrightarrow> map_of (rev es) = map_of es"
  by (rule map_of_inject_set[THEN iffD2]) (simp_all add: rev_map[symmetric])

lemma mergeLabels_addr: "fst (mergeLabels h r) = length h"
  by (simp add: mergeLabels_def make_map_def Let_def)

lemma mergeLabels_length: "length (snd (mergeLabels h r)) = Suc (length h)"
  by (simp add: mergeLabels_def make_map_def Let_def)

lemma mergeLabels_frame: "b < length h \<Longrightarrow> snd (mergeLabels h r) ! b = h ! b"
  by (simp add: mergeLabels_def make_map_def Let_def map_assign_other copy_labels_other nth_append)

lemma mergeLabels_contents:
  "map_of (snd (mergeLabels h r) ! length h) = (map_of (rev (range_map h r)))(MCPServerLabel \<mapsto> ''true'')"
  by (simp add: mergeLabels_def make_map_def Let_def map_assign_same copy_labels_same)

lemma range_map_frame:
  "allocated h r \<Longrightarrow> length h \<le> length h' \<Longrightarrow> (\<And>b. b < length h \<Longrightarrow> h' ! b = h ! b)
     \<Longrightarrow> range_map h' r = range_map h r"
  by (cases r) (auto simp: range_map_def allocated_def)

lemma map_index_merged:
  "map_index (snd (mergeLabels h r)) (Some (fst (mergeLabels h r))) k =
     ((map_of (rev (range_map h r)))(MCPServerLabel \<mapsto> ''true'')) k"
proof -
  have "range_map (snd (mergeLabels h r)) (Some (length h)) = snd (mergeLabels h r) ! length h"
    by (simp add: range_map_def mergeLabels_length)
  then show ?thesis
    by (simp only: map_index_def mergeLabels_addr mergeLabels_contents)
qed

lemma range_map_mergeLabels:
  assumes "allocated h r"
  shows "range_map (snd (mergeLabels h r')) r = range_map h r"
  using assms by (rule range_map_frame) (simp_all add: mergeLabels_length mergeLabels_frame)

lemma allocated_mergeLabels: "allocated h r \<Longrightarrow> allocated (snd (mergeLabels h r')) r"
  by (cases r) (simp_all add: allocated_def mergeLabels_length)

section \<open>The manifests and what is submitted\<close>

lemma createDeployment_manifest_heap:
  "snd (createDeployment_manifest h spec) = snd (mergeLabels h (spec_Labels spec))"
  by (simp add: createDeployment_manifest_def Let_def split: prod.splits)

lemma createService_manifest_heap:
  "snd (createService_manifest h spec) = snd (mergeLabels h (spec_Labels spec))"
  by (simp add: createService_manifest_def Let_def split: prod.splits)

lemma createDeployment_state:
  "snd (createDeployment cs st spec) =
     \<lparr>heap = snd (createDeployment_manifest (heap st) spec),
      cluster = snd (Deployments_Create cs (snd (createDeployment_manifest (heap st) spec)) (cluster st)
                       (spec_Namespace spec) (fst (createDeployment_manifest (heap st) spec))),
      calls = calls st @ [DeploymentsCreate (spec_Namespace spec) (fst (createDeployment_manifest (heap st) spec))]\<rparr>"
  by (simp add: createDeployment_def Let_def split: prod.splits option.splits)

lemma createService_state:
  "snd (createService cs st spec) =
     \<lparr>heap = snd (createService_manifest (heap st) spec),
      cluster = snd (Services_Create cs (snd (createService_manifest (heap st) spec)) (cluster st)
                       (spec_Namespace spec) (fst (createService_manifest (heap st) spec))),
      calls = calls st @ [ServicesCreate (spec_Namespace spec) (fst (createService_manifest (heap st) spec))]\<rparr>"
  by (simp add: createService_def Let_def split: prod.splits option.splits)

lemma createDeployment_manifest_labels:
  "om_Labels (d_ObjectMeta (fst (createDeployment_manifest h spec))) = Some (length h)"
  using mergeLabels_addr [of h "spec_Labels spec"]
  by (auto simp: createDeployment_manifest_def Let_def split: prod.splits)

lemma copy_labels_entries:
  "a < length h \<Longrightarrow> copy_labels h a es ! a = foldl (\<lambda>m (k, v). AList.update k v m) (h ! a) es"
  by (induction h a es rule: copy_labels.induct) (simp_all add: map_assign_def)

lemma mergeLabels_entries:
  "snd (mergeLabels h r) ! length h =
     AList.update MCPServerLabel ''true'' (foldl (\<lambda>m (k, v). AList.update k v m) [] (range_map h r))"
  by (simp add: mergeLabels_def make_map_def Let_def map_assign_def copy_labels_entries)

lemma range_map_merged:
  "range_map (snd (mergeLabels h r)) (Some (length h)) =
     AList.update MCPServerLabel ''true'' (foldl (\<lambda>m (k, v). AList.update k v m) [] (range_map h r))"
  by (simp add: range_map_def mergeLabels_length mergeLabels_entries)

lemma createService_manifest_labels:
  "ss_Selector (s_Spec (fst (createService_manifest h spec))) = Some (length h)"
  "om_Labels (s_ObjectMeta (fst (createService_manifest h spec))) = Some (length h)"
  using mergeLabels_addr [of h "spec_Labels spec"]
  by (auto simp: createService_manifest_def Let_def split: prod.splits)

lemma createDeployment_manifest_selectors:
  "ds_Selector (d_Spec (fst (createDeployment_manifest h spec))) = Some \<lparr>ls_MatchLabels = Some (length h)\<rparr>"
  "om_Labels (pt_ObjectMeta (ds_Template (d_Spec (fst (createDeployment_manifest h spec))))) = Some (length h)"
  using mergeLabels_addr [of h "spec_Labels spec"]
  by (auto simp: createDeployment_manifest_def Let_def split: prod.splits)

lemma createDeployment_heap:
  "heap (snd (createDeployment cs st spec)) = snd (mergeLabels (heap st) (spec_Labels spec))"
  by (simp add: createDeployment_state createDeployment_manifest_heap)

lemma createService_heap:
  "heap (snd (createService cs st spec)) = snd (mergeLabels (heap st) (spec_Labels spec))"
  by (simp add: createService_state createService_manifest_heap)

lemma DeployMCPServer_heap:
  "heap (snd (DeployMCPServer cs st spec)) =
     (if fst (createDeployment cs st spec) = None
      then snd (mergeLabels (snd (mergeLabels (heap st) (spec_Labels spec))) (spec_Labels spec))
      else snd (mergeLabels (heap st) (spec_Labels spec)))"
proof (cases "createDeployment cs st spec")
  case (Pair e st1)
  have h1: "heap st1 = snd (mergeLabels (heap st) (spec_Labels spec))"
    using createDeployment_heap [of cs st spec] Pair by simp
  show ?thesis
  proof (cases e)
    case None
    obtain e2 st2 where s: "createService cs st1 spec = (e2, st2)"
      by (cases "createService cs st1 spec")
    have "heap st2 = snd (mergeLabels (heap st1) (spec_Labels spec))"
      using createService_heap [of cs st1 spec] s by simp
    then show ?thesis
      using Pair None s h1 by (cases e2) (simp_all add: DeployMCPServer_def)
  next
    case (Some err)
    then show ?thesis
      using Pair h1 by (simp add: DeployMCPServer_def)
  qed
qed

lemma mergeLabels_twice_frame:
  "b < length h \<Longrightarrow> snd (mergeLabels (snd (mergeLabels h r)) r') ! b = h ! b"
  by (simp add: mergeLabels_frame mergeLabels_length)

lemma DeployMCPServer_frame:
  "b < length (heap st) \<Longrightarrow> heap (snd (DeployMCPServer cs st spec)) ! b = heap st ! b"
  by (simp add: DeployMCPServer_heap mergeLabels_frame mergeLabels_twice_frame)

lemma DeployMCPServer_length:
  "length (heap st) \<le> length (heap (snd (DeployMCPServer cs st spec)))"
  by (simp add: DeployMCPServer_heap mergeLabels_length)


lemma sample_merge:
  "mergeLabels sample_heap (Some 0) =
     (2, sample_heap @ [[(''app'', ''demo''), (''mcp.opendatahub.io/mcp-server'', ''true'')]])"
  by (simp add: mergeLabels_def make_map_def range_map_def sample_heap_def map_assign_def
        MCPServerLabel_def Let_def)

lemma secret_volumes_closed:
  "secret_volumes i sms vs ms =
     (vs @ map (\<lambda>(j, sm). \<lparr>vol_Name = ''secret-'' @ fmt_d (int j),
                             vol_VolumeSource = \<lparr>vs_Secret = Some \<lparr>svs_SecretName = SecretName sm\<rparr>\<rparr>\<rparr>)
              (enumerate i sms),
      ms @ map (\<lambda>(j, sm). \<lparr>vm_Name = ''secret-'' @ fmt_d (int j),
                             vm_MountPath = MountPath sm,
                             vm_ReadOnly = True\<rparr>)
              (enumerate i sms))"
  by (induction i sms vs ms rule: secret_volumes.induct) (simp_all add: Let_def)

lemma createDeployment_manifest_pod:
  "pt_Spec (ds_Template (d_Spec (fst (createDeployment_manifest h spec)))) =
     \<lparr>ps_ServiceAccountName = spec_ServiceAccount spec,
      ps_Containers =
        [\<lparr>c_Name = ''mcp-server'',
          c_Image = spec_Image spec,
          c_Ports = [\<lparr>cp_Name = ''mcp'', cp_ContainerPort = spec_Port spec, cp_Protocol = ProtocolTCP\<rparr>],
          c_Env = spec_EnvVars spec,
          c_Args = spec_Args spec,
          c_VolumeMounts = snd (secret_volumes 0 (spec_SecretMounts spec) [] []),
          c_Resources = getResources (spec_Resources spec)\<rparr>],
      ps_Volumes = fst (secret_volumes 0 (spec_SecretMounts spec) [] [])\<rparr>"
  by (simp add: createDeployment_manifest_def Let_def split: prod.splits)

lemma createService_manifest_ports:
  "ss_Ports (s_Spec (fst (createService_manifest h spec))) =
     [\<lparr>sp_Name = ''mcp'', sp_Port = spec_Port spec,
       sp_TargetPort = \<lparr>ios_Type = intstr_Int, ios_IntVal = spec_Port spec, ios_StrVal = []\<rparr>,
       sp_Protocol = ProtocolTCP\<rparr>]"
  by (simp add: createService_manifest_def FromInt_def Let_def split: prod.splits)

lemma sample_deployment_meta:
  "om_Name (d_ObjectMeta (fst (createDeployment_manifest h sample_spec))) = ''s1''"
  "om_Namespace (d_ObjectMeta (fst (createDeployment_manifest h sample_spec))) = ''ns1''"
  by (simp_all add: createDeployment_manifest_def sample_spec_def Let_def split: prod.splits)

section \<open>The status of one deployment and of a list\<close>

lemma append_conditions_fields:
  "st_Name (append_conditions s cs) = st_Name s"
  "st_Namespace (append_conditions s cs) = st_Namespace s"
  "st_Image (append_conditions s cs) = st_Image s"
  "st_Available (append_conditions s cs) = st_Available s"
  "st_Endpoint (append_conditions s cs) = st_Endpoint s"
  "st_Labels (append_conditions s cs) = st_Labels s"
  "st_Annotations (append_conditions s cs) = st_Annotations s"
  "st_Conditions (append_conditions s cs) = st_Conditions s @ map condition_line cs"
  by (induction s cs rule: append_conditions.induct) simp_all

lemma server_status_fields:
  "st_Name (fst (server_status cs ns st d)) = om_Name (d_ObjectMeta d)"
  "st_Namespace (fst (server_status cs ns st d)) = om_Namespace (d_ObjectMeta d)"
  "st_Labels (fst (server_status cs ns st d)) = om_Labels (d_ObjectMeta d)"
  "st_Annotations (fst (server_status cs ns st d)) = om_Annotations (d_ObjectMeta d)"
  "st_Available (fst (server_status cs ns st d)) = (0 < sint (dst_AvailableReplicas (d_Status d)))"
  "st_Image (fst (server_status cs ns st d)) =
     (case ps_Containers (pt_Spec (ds_Template (d_Spec d))) of [] \<Rightarrow> [] | c # _ \<Rightarrow> c_Image c)"
  "st_Conditions (fst (server_status cs ns st d)) = map condition_line (dst_Conditions (d_Status d))"
  by (simp_all add: server_status_def Let_def append_conditions_fields
        split: prod.splits list.splits sum.splits)

lemma server_status_unavailable:
  "\<not> 0 < sint (dst_AvailableReplicas (d_Status d)) \<Longrightarrow> snd (server_status cs ns st d) = st"
  "\<not> 0 < sint (dst_AvailableReplicas (d_Status d)) \<Longrightarrow> st_Endpoint (fst (server_status cs ns st d)) = []"
  by (simp_all add: server_status_def Let_def append_conditions_fields split: list.splits)

lemma server_status_calls:
  "calls (snd (server_status cs ns st d)) =
     calls st @ (if 0 < sint (dst_AvailableReplicas (d_Status d))
                 then [ServicesGet ns (om_Name (d_ObjectMeta d))] else [])"
  by (simp add: server_status_def Let_def split: prod.splits list.splits sum.splits)

lemma server_status_heap: "heap (snd (server_status cs ns st d)) = heap st"
  by (simp add: server_status_def Let_def split: prod.splits list.splits sum.splits)

lemma server_status_endpoint_found:
  "0 < sint (dst_AvailableReplicas (d_Status d)) \<Longrightarrow>
   Services_Get cs (cluster st) ns (om_Name (d_ObjectMeta d)) = (Inr service, w) \<Longrightarrow>
   ss_Ports (s_Spec service) = port # ports \<Longrightarrow>
   st_Endpoint (fst (server_status cs ns st d)) =
     om_Name (s_ObjectMeta service) @ '':'' @ fmt_d (sint (sp_Port port))"
  by (simp add: server_status_def Let_def append_conditions_fields split: list.splits)

lemma server_status_endpoint_failed:
  "Services_Get cs (cluster st) ns (om_Name (d_ObjectMeta d)) = (Inl err, w) \<Longrightarrow>
   st_Endpoint (fst (server_status cs ns st d)) = []"
  by (simp add: server_status_def Let_def append_conditions_fields split: list.splits)

lemma server_status_endpoint_portless:
  "Services_Get cs (cluster st) ns (om_Name (d_ObjectMeta d)) = (Inr service, w) \<Longrightarrow>
   ss_Ports (s_Spec service) = [] \<Longrightarrow>
   st_Endpoint (fst (server_status cs ns st d)) = []"
  by (simp add: server_status_def Let_def append_conditions_fields split: list.splits)

lemma list_servers_acc:
  "list_servers cs ns items acc st =
     (acc @ fst (list_servers cs ns items [] st), snd (list_servers cs ns items [] st))"
proof (induction items arbitrary: acc st)
  case Nil
  then show ?case by simp
next
  case (Cons d items)
  obtain s st' where b: "server_status cs ns st d = (s, st')"
    by (cases "server_status cs ns st d")
  show ?case
    using Cons [of "acc @ [s]" st'] Cons [of "[s]" st'] b by simp
qed

lemma list_servers_Cons:
  "list_servers cs ns (d # items) [] st =
     (fst (server_status cs ns st d) # fst (list_servers cs ns items [] (snd (server_status cs ns st d))),
      snd (list_servers cs ns items [] (snd (server_status cs ns st d))))"
proof -
  obtain s st' where b: "server_status cs ns st d = (s, st')"
    by (cases "server_status cs ns st d")
  show ?thesis
    using list_servers_acc [of cs ns items "[s]" st'] b by simp
qed

lemma list_servers_length: "length (fst (list_servers cs ns items [] st)) = length items"
  by (induction items arbitrary: st) (simp_all add: list_servers_Cons del: list_servers.simps(2))

lemma list_servers_calls:
  "calls (snd (list_servers cs ns items [] st)) =
     calls st @ map (\<lambda>d. ServicesGet ns (om_Name (d_ObjectMeta d)))
                  (filter (\<lambda>d. 0 < sint (dst_AvailableReplicas (d_Status d))) items)"
  by (induction items arbitrary: st)
     (simp_all add: list_servers_Cons server_status_calls del: list_servers.simps(2))

lemma list_servers_snoc:
  "list_servers cs ns (items @ [d]) [] st =
     (fst (list_servers cs ns items [] st) @ [fst (server_status cs ns (snd (list_servers cs ns items [] st)) d)],
      snd (server_status cs ns (snd (list_servers cs ns items [] st)) d))"
  by (induction items arbitrary: st) (simp_all add: list_servers_Cons del: list_servers.simps(2))

lemma list_servers_take:
  "i \<le> length items \<Longrightarrow>
   fst (list_servers cs ns (take i items) [] st) = take i (fst (list_servers cs ns items [] st))"
proof (induction items arbitrary: st i)
  case Nil
  then show ?case by simp
next
  case (Cons d items)
  then show ?case
    by (cases i) (simp_all add: list_servers_Cons del: list_servers.simps(2))
qed

lemma list_servers_nth:
  assumes "i < length items"
  shows "fst (list_servers cs ns items [] st) ! i =
           fst (server_status cs ns (snd (list_servers cs ns (take i items) [] st)) (items ! i))"
proof -
  have "fst (list_servers cs ns (take (Suc i) items) [] st) ! i =
          fst (server_status cs ns (snd (list_servers cs ns (take i items) [] st)) (items ! i))"
    using assms
    by (simp add: take_Suc_conv_app_nth list_servers_snoc nth_append list_servers_length)
  moreover have "fst (list_servers cs ns (take (Suc i) items) [] st) ! i = fst (list_servers cs ns items [] st) ! i"
    using assms by (simp add: list_servers_take)
  ultimately show ?thesis by simp
qed

lemma ListMCPServers_listed:
  assumes "Deployments_List cs (cluster st) ns (MCPServerLabel @ ''=true'') = (Inr items, w)"
  shows "ListMCPServers cs st ns =
           (Inr (fst (list_servers cs ns items []
                   (st\<lparr>cluster := w, calls := calls st @ [DeploymentsList ns (MCPServerLabel @ ''=true'')]\<rparr>))),
            snd (list_servers cs ns items []
                   (st\<lparr>cluster := w, calls := calls st @ [DeploymentsList ns (MCPServerLabel @ ''=true'')]\<rparr>)))"
  using assms by (simp add: ListMCPServers_def Let_def split: prod.splits)

lemma ListMCPServers_failed:
  assumes "Deployments_List cs (cluster st) ns (MCPServerLabel @ ''=true'') = (Inl err, w)"
  shows "ListMCPServers cs st ns =
           (Inl (Errorf ''failed to list deployments'' err),
            st\<lparr>cluster := w, calls := calls st @ [DeploymentsList ns (MCPServerLabel @ ''=true'')]\<rparr>)"
  using assms by (simp add: ListMCPServers_def Let_def)

lemma listing_list:
  "Deployments_List fake_clientset (cluster listing_state) ''ns1'' (MCPServerLabel @ ''=true'')
     = (Inr listing_items, listing_cluster)"
  by (simp add: fake_clientset_def listing_state_def listing_cluster_def listing_items_def reported_def)

lemma listing_items_nth:
  "length listing_items = 3"
  "listing_items ! 0 = reported ''svc-a'' 1 [sample_container] sample_conditions"
  "listing_items ! Suc 0 = reported ''idle'' 0 [] []"
  "listing_items ! 2 = reported ''lost'' 2 [sample_container] []"
  by (simp_all add: listing_items_def)

lemma reported_fields:
  "om_Name (d_ObjectMeta (reported name replicas containers conditions)) = name"
  "om_Namespace (d_ObjectMeta (reported name replicas containers conditions)) = ''ns1''"
  "om_Labels (d_ObjectMeta (reported name replicas containers conditions)) = Some 0"
  "om_Annotations (d_ObjectMeta (reported name replicas containers conditions)) = Some 1"
  "dst_AvailableReplicas (d_Status (reported name replicas containers conditions)) = replicas"
  "dst_Conditions (d_Status (reported name replicas containers conditions)) = conditions"
  "ps_Containers (pt_Spec (ds_Template (d_Spec (reported name replicas containers conditions)))) = containers"
  by (simp_all add: reported_def)

lemma fmt_9000: "fmt_d 9000 = ''9000''"
  by (simp add: fmt_d_def digits.simps digit_def)

lemma listing_result:
  "ListMCPServers fake_clientset listing_state ''ns1'' =
     (Inr [\<lparr>st_Name = ''svc-a'', st_Namespace = ''ns1'', st_Image = ''img:v1'', st_Available = True,
            st_Endpoint = ''svc-a:9000'', st_Labels = Some 0, st_Annotations = Some 1,
            st_Conditions = [''Available: True - ready'', ''Progressing: True - rolled out'']\<rparr>,
           \<lparr>st_Name = ''idle'', st_Namespace = ''ns1'', st_Image = [], st_Available = False,
            st_Endpoint = [], st_Labels = Some 0, st_Annotations = Some 1, st_Conditions = []\<rparr>,
           \<lparr>st_Name = ''lost'', st_Namespace = ''ns1'', st_Image = ''img:v1'', st_Available = True,
            st_Endpoint = [], st_Labels = Some 0, st_Annotations = Some 1, st_Conditions = []\<rparr>],
      listing_state\<lparr>calls := [DeploymentsList ''ns1'' (MCPServerLabel @ ''=true''),
                                ServicesGet ''ns1'' ''svc-a'', ServicesGet ''ns1'' ''lost'']\<rparr>)"
  by (simp add: ListMCPServers_def Let_def server_status_def fake_clientset_def listing_state_def
        listing_cluster_def listing_items_def reported_def exposing_def named_def sample_container_def
        sample_conditions_def condition_line_def fmt_9000)

section \<open>Resources\<close>

text \<open>
  C9. For every specification, the single container of the workload manifest carries
  \<open>getResources (spec.Resources)\<close> in a field that holds a requirements object, not a
  pointer to one: for a nil \<open>Resources\<close> that is the zero-valued object, whose two resource
  lists are nil, and for a \<open>Resources\<close> that is set it is the object pointed to, unchanged.
\<close>

theorem createDeployment_resources:
  "map c_Resources (ps_Containers (pt_Spec (ds_Template (d_Spec (fst (createDeployment_manifest h spec))))))
     = [getResources (spec_Resources spec)]
   \<and> getResources None = \<lparr>Limits = None, Requests = None\<rparr>
   \<and> getResources (Some r) = r"
  by (simp add: createDeployment_manifest_def getResources_def Let_def split: prod.splits)

section \<open>The required label\<close>

text \<open>
  C1. For every specification, store and clientset, \<open>createDeployment\<close> submits the
  manifest it built, and in the store it leaves, the label map of that manifest holds
  \<open>mcp.opendatahub.io/mcp-server = "true"\<close>, whatever the caller's map says under that
  key. The keys of a Go map being distinct, the merged map is the caller's map with that
  one key overwritten: every other key has the caller's value, and a key the caller does
  not have is absent.
\<close>

theorem createDeployment_required_label:
  "let deployment = fst (createDeployment_manifest (heap st) spec);
       st' = snd (createDeployment cs st spec);
       labels = om_Labels (d_ObjectMeta deployment)
   in calls st' = calls st @ [DeploymentsCreate (spec_Namespace spec) deployment]
      \<and> map_index (heap st') labels MCPServerLabel = Some ''true''
      \<and> (distinct (map fst (range_map (heap st) (spec_Labels spec))) \<longrightarrow>
           (\<forall>k. map_index (heap st') labels k =
                  ((map_index (heap st) (spec_Labels spec))(MCPServerLabel \<mapsto> ''true'')) k))"
proof -
  let ?h = "heap st"
  let ?r = "spec_Labels spec"
  have lab: "om_Labels (d_ObjectMeta (fst (createDeployment_manifest ?h spec))) = Some (fst (mergeLabels ?h ?r))"
    by (simp add: createDeployment_manifest_labels mergeLabels_addr)
  have hp: "heap (snd (createDeployment cs st spec)) = snd (mergeLabels ?h ?r)"
    by (simp add: createDeployment_state createDeployment_manifest_heap)
  have cl: "calls (snd (createDeployment cs st spec)) =
      calls st @ [DeploymentsCreate (spec_Namespace spec) (fst (createDeployment_manifest ?h spec))]"
    by (simp add: createDeployment_state)
  have req: "map_index (snd (mergeLabels ?h ?r)) (Some (fst (mergeLabels ?h ?r))) MCPServerLabel = Some ''true''"
    by (simp add: map_index_merged)
  have rest: "map_index (snd (mergeLabels ?h ?r)) (Some (fst (mergeLabels ?h ?r))) k =
        ((map_index ?h ?r)(MCPServerLabel \<mapsto> ''true'')) k"
    if "distinct (map fst (range_map ?h ?r))" for k
  proof -
    have "map_of (rev (range_map ?h ?r)) = map_index ?h ?r"
      using that by (simp add: map_of_rev_distinct map_index_def fun_eq_iff)
    then show ?thesis
      by (simp only: map_index_merged)
  qed
  show ?thesis
    unfolding Let_def lab hp using cl req rest by blast
qed

text \<open>
  The sample: the caller's map says \<open>"false"\<close> under the required key and \<open>"demo"\<close> under
  \<open>app\<close>; the manifest's map says \<open>"true"\<close> and \<open>"demo"\<close>.
\<close>

theorem createDeployment_required_label_witness:
  "distinct (map fst (range_map (heap sample_state) (spec_Labels sample_spec)))
   \<and> map_index (heap sample_state) (spec_Labels sample_spec) MCPServerLabel = Some ''false''
   \<and> map_index (heap (snd (createDeployment fake_clientset sample_state sample_spec)))
        (om_Labels (d_ObjectMeta (fst (createDeployment_manifest (heap sample_state) sample_spec))))
        MCPServerLabel = Some ''true''
   \<and> map_index (heap (snd (createDeployment fake_clientset sample_state sample_spec)))
        (om_Labels (d_ObjectMeta (fst (createDeployment_manifest (heap sample_state) sample_spec))))
        ''app'' = Some ''demo''"
proof -
  have d: "distinct (map fst (range_map (heap sample_state) (spec_Labels sample_spec)))"
    by (simp add: sample_state_def sample_spec_def sample_heap_def range_map_def)
  have f: "map_index (heap sample_state) (spec_Labels sample_spec) MCPServerLabel = Some ''false''"
    by (simp add: sample_state_def sample_spec_def sample_heap_def range_map_def map_index_def MCPServerLabel_def)
  have a: "map_index (heap sample_state) (spec_Labels sample_spec) ''app'' = Some ''demo''"
    by (simp add: sample_state_def sample_spec_def sample_heap_def range_map_def map_index_def MCPServerLabel_def)
  have n: "''app'' \<noteq> MCPServerLabel"
    by (simp add: MCPServerLabel_def)
  show ?thesis
    using createDeployment_required_label [of sample_state sample_spec fake_clientset] d f a n
    by (simp add: Let_def)
qed

section \<open>The selector of the service\<close>

text \<open>
  C3. For every specification whose \<open>Labels\<close> is nil or a map of the store, build the
  workload manifest and then, as \<open>DeployMCPServer\<close> does, the network manifest in the
  store the first left. The selector of the service then has exactly the entries of the
  label map of the deployment, which building the service has not changed; the
  deployment's \<open>Selector.MatchLabels\<close> and the labels of its pod template are that very
  map, and the service's own labels are its selector.
\<close>

theorem service_selector_equals_deployment_labels:
  assumes "allocated h (spec_Labels spec)"
  shows "let (deployment, h1) = createDeployment_manifest h spec;
             (service, h2) = createService_manifest h1 spec;
             labels = om_Labels (d_ObjectMeta deployment)
         in range_map h2 (ss_Selector (s_Spec service)) = range_map h2 labels
          \<and> range_map h2 labels = range_map h1 labels
          \<and> ds_Selector (d_Spec deployment) = Some \<lparr>ls_MatchLabels = labels\<rparr>
          \<and> om_Labels (pt_ObjectMeta (ds_Template (d_Spec deployment))) = labels
          \<and> om_Labels (s_ObjectMeta service) = ss_Selector (s_Spec service)"
proof -
  let ?r = "spec_Labels spec"
  let ?h1 = "snd (mergeLabels h ?r)"
  let ?h2 = "snd (mergeLabels ?h1 ?r)"
  have r1: "range_map ?h1 ?r = range_map h ?r"
    using assms by (rule range_map_mergeLabels)
  have new: "allocated ?h1 (Some (length h))"
    by (simp add: allocated_def mergeLabels_length)
  have keep: "range_map ?h2 (Some (length h)) = range_map ?h1 (Some (length h))"
    using new by (rule range_map_mergeLabels)
  have sel: "range_map ?h2 (Some (length ?h1)) = range_map ?h1 (Some (length h))"
    by (simp only: range_map_merged r1)
  obtain deployment h1 where d: "createDeployment_manifest h spec = (deployment, h1)"
    by (cases "createDeployment_manifest h spec")
  obtain service h2 where s: "createService_manifest h1 spec = (service, h2)"
    by (cases "createService_manifest h1 spec")
  have h1: "h1 = ?h1"
    using d createDeployment_manifest_heap [of h spec] by simp
  have h2: "h2 = ?h2"
    using s createService_manifest_heap [of h1 spec] h1 by simp
  have dl: "om_Labels (d_ObjectMeta deployment) = Some (length h)"
    using d createDeployment_manifest_labels [of h spec] by simp
  have ds: "ds_Selector (d_Spec deployment) = Some \<lparr>ls_MatchLabels = Some (length h)\<rparr>"
    "om_Labels (pt_ObjectMeta (ds_Template (d_Spec deployment))) = Some (length h)"
    using d createDeployment_manifest_selectors [of h spec] by simp_all
  have sl: "ss_Selector (s_Spec service) = Some (length ?h1)"
    "om_Labels (s_ObjectMeta service) = Some (length ?h1)"
    using s createService_manifest_labels [of h1 spec] h1 by simp_all
  have "range_map h2 (ss_Selector (s_Spec service)) = range_map h2 (om_Labels (d_ObjectMeta deployment))"
    and "range_map h2 (om_Labels (d_ObjectMeta deployment)) = range_map h1 (om_Labels (d_ObjectMeta deployment))"
    and "om_Labels (s_ObjectMeta service) = ss_Selector (s_Spec service)"
    unfolding dl sl h1 h2 using keep sel by simp_all
  then show ?thesis
    by (simp add: d s dl ds)
qed

text \<open>
  The sample: the deployment's labels are the map at address 2, the service's selector the
  map at address 3, and both hold \<open>app = "demo"\<close> and the required label.
\<close>

theorem service_selector_equals_deployment_labels_witness:
  "allocated sample_heap (spec_Labels sample_spec)
   \<and> (let (deployment, h1) = createDeployment_manifest sample_heap sample_spec;
            (service, h2) = createService_manifest h1 sample_spec
        in range_map h2 (ss_Selector (s_Spec service)) = range_map h2 (om_Labels (d_ObjectMeta deployment))
         \<and> ss_Selector (s_Spec service) = Some 3
         \<and> om_Labels (d_ObjectMeta deployment) = Some 2
         \<and> range_map h2 (om_Labels (d_ObjectMeta deployment)) =
             [(''app'', ''demo''), (''mcp.opendatahub.io/mcp-server'', ''true'')])"
proof -
  have a: "allocated sample_heap (spec_Labels sample_spec)"
    by (simp add: allocated_def sample_heap_def sample_spec_def)
  have m: "mergeLabels (sample_heap @ [[(''app'', ''demo''), (''mcp.opendatahub.io/mcp-server'', ''true'')]]) (Some 0)
    = (3, sample_heap @ [[(''app'', ''demo''), (''mcp.opendatahub.io/mcp-server'', ''true'')],
         [(''app'', ''demo''), (''mcp.opendatahub.io/mcp-server'', ''true'')]])"
    by (simp add: mergeLabels_def make_map_def range_map_def sample_heap_def map_assign_def
        MCPServerLabel_def Let_def)
  have l: "spec_Labels sample_spec = Some 0" "length sample_heap = 2"
    by (simp_all add: sample_spec_def sample_heap_def)
  show ?thesis
    using service_selector_equals_deployment_labels [OF a] a
    by (simp add: case_prod_beta Let_def createDeployment_manifest_heap createService_manifest_heap
          createDeployment_manifest_labels createService_manifest_labels l sample_merge m range_map_def
          nth_append)
qed

section \<open>The caller's maps are left alone\<close>

text \<open>
  C10. The specification is handed to the deployer and never assigned to; the only
  assignments of the deployer are to the map \<open>mergeLabels\<close> makes. For every specification
  whose \<open>Labels\<close> is nil or a map of the store, after \<open>DeployMCPServer\<close>, after
  \<open>createDeployment\<close> and after \<open>createService\<close> the caller's label map has the entries it
  had before, so it says under the required key what it said before; the label map of
  either manifest is another map than the caller's; and every map the store held before
  \<open>DeployMCPServer\<close> is unchanged after it.
\<close>

theorem DeployMCPServer_leaves_spec_labels:
  assumes "allocated (heap st) (spec_Labels spec)"
  shows "range_map (heap (snd (DeployMCPServer cs st spec))) (spec_Labels spec) = range_map (heap st) (spec_Labels spec)
       \<and> range_map (heap (snd (createDeployment cs st spec))) (spec_Labels spec) = range_map (heap st) (spec_Labels spec)
       \<and> range_map (heap (snd (createService cs st spec))) (spec_Labels spec) = range_map (heap st) (spec_Labels spec)
       \<and> map_index (heap (snd (DeployMCPServer cs st spec))) (spec_Labels spec) MCPServerLabel
            = map_index (heap st) (spec_Labels spec) MCPServerLabel
       \<and> om_Labels (d_ObjectMeta (fst (createDeployment_manifest (heap st) spec))) \<noteq> spec_Labels spec
       \<and> ss_Selector (s_Spec (fst (createService_manifest (heap st) spec))) \<noteq> spec_Labels spec
       \<and> (\<forall>a < length (heap st). heap (snd (DeployMCPServer cs st spec)) ! a = heap st ! a)"
proof -
  have 1: "range_map (heap (snd (DeployMCPServer cs st spec))) (spec_Labels spec) = range_map (heap st) (spec_Labels spec)"
    using assms by (rule range_map_frame) (simp_all add: DeployMCPServer_length DeployMCPServer_frame)
  have 2: "range_map (heap (snd (createDeployment cs st spec))) (spec_Labels spec) = range_map (heap st) (spec_Labels spec)"
    unfolding createDeployment_heap using assms by (rule range_map_mergeLabels)
  have 3: "range_map (heap (snd (createService cs st spec))) (spec_Labels spec) = range_map (heap st) (spec_Labels spec)"
    unfolding createService_heap using assms by (rule range_map_mergeLabels)
  have 4: "map_index (heap (snd (DeployMCPServer cs st spec))) (spec_Labels spec) MCPServerLabel
            = map_index (heap st) (spec_Labels spec) MCPServerLabel"
    by (simp only: map_index_def 1)
  have 5: "om_Labels (d_ObjectMeta (fst (createDeployment_manifest (heap st) spec))) \<noteq> spec_Labels spec"
    using assms by (cases "spec_Labels spec") (auto simp: createDeployment_manifest_labels allocated_def)
  have 6: "ss_Selector (s_Spec (fst (createService_manifest (heap st) spec))) \<noteq> spec_Labels spec"
    using assms by (cases "spec_Labels spec") (auto simp: createService_manifest_labels allocated_def)
  show ?thesis
    using 1 2 3 4 5 6 by (simp add: DeployMCPServer_frame)
qed



text \<open>
  The sample: a caller's map \<open>owner = "team-a"\<close> without the required key has the same single
  entry, and no required key, after the deployment.
\<close>

theorem DeployMCPServer_leaves_spec_labels_witness:
  "allocated (heap sample_state) (spec_Labels plain_spec)
   \<and> range_map (heap sample_state) (spec_Labels plain_spec) = [(''owner'', ''team-a'')]
   \<and> range_map (heap (snd (DeployMCPServer fake_clientset sample_state plain_spec))) (spec_Labels plain_spec)
        = [(''owner'', ''team-a'')]
   \<and> map_index (heap (snd (DeployMCPServer fake_clientset sample_state plain_spec))) (spec_Labels plain_spec)
        MCPServerLabel = None
   \<and> heap (snd (DeployMCPServer fake_clientset sample_state plain_spec)) ! 0 = heap sample_state ! 0"
proof -
  have a: "allocated (heap sample_state) (spec_Labels plain_spec)"
    by (simp add: allocated_def sample_state_def sample_heap_def plain_spec_def)
  have r: "range_map (heap sample_state) (spec_Labels plain_spec) = [(''owner'', ''team-a'')]"
    by (simp add: range_map_def sample_state_def sample_heap_def plain_spec_def)
  have i: "map_index (heap sample_state) (spec_Labels plain_spec) MCPServerLabel = None"
    by (simp add: map_index_def r MCPServerLabel_def)
  have l: "0 < length (heap sample_state)"
    by (simp add: sample_state_def sample_heap_def)
  show ?thesis
    using DeployMCPServer_leaves_spec_labels [OF a, of fake_clientset] a r i l by simp
qed

section \<open>Secret mounts\<close>

text \<open>
  C4. For every specification with \<open>n\<close> secret mounts, the workload manifest has one
  container, \<open>n\<close> volumes and \<open>n\<close> volume mounts on that container, and for every
  position \<open>i\<close> below \<open>n\<close>: the \<open>i\<close>-th volume is named \<open>secret-<i>\<close> and backed by the
  secret named in the \<open>i\<close>-th mount of the specification, and the \<open>i\<close>-th volume mount is
  read-only, names the volume \<open>secret-<i>\<close> and mounts it at the path of the \<open>i\<close>-th mount of
  the specification. Nothing is reordered and nothing merged.
\<close>

theorem createDeployment_secret_volumes:
  "let pod = pt_Spec (ds_Template (d_Spec (fst (createDeployment_manifest h spec))));
       n = length (spec_SecretMounts spec)
   in \<exists>c. ps_Containers pod = [c]
        \<and> length (ps_Volumes pod) = n
        \<and> length (c_VolumeMounts c) = n
        \<and> (\<forall>i<n. ps_Volumes pod ! i =
                     \<lparr>vol_Name = ''secret-'' @ fmt_d (int i),
                      vol_VolumeSource =
                        \<lparr>vs_Secret = Some \<lparr>svs_SecretName = SecretName (spec_SecretMounts spec ! i)\<rparr>\<rparr>\<rparr>
                 \<and> c_VolumeMounts c ! i =
                     \<lparr>vm_Name = ''secret-'' @ fmt_d (int i),
                      vm_MountPath = MountPath (spec_SecretMounts spec ! i),
                      vm_ReadOnly = True\<rparr>)"
  by (simp add: Let_def createDeployment_manifest_pod secret_volumes_closed nth_enumerate_eq)

text \<open>
  The sample mounts the secret \<open>sec1\<close> twice, at \<open>/a\<close> and at \<open>/b\<close>: two volumes
  \<open>secret-0\<close> and \<open>secret-1\<close>, both backed by \<open>sec1\<close>, and two read-only mounts.
\<close>

theorem createDeployment_secret_volumes_witness:
  "map SecretName (spec_SecretMounts sample_spec) = [''sec1'', ''sec1'']
   \<and> ps_Volumes (pt_Spec (ds_Template (d_Spec (fst (createDeployment_manifest sample_heap sample_spec))))) =
       [\<lparr>vol_Name = ''secret-0'', vol_VolumeSource = \<lparr>vs_Secret = Some \<lparr>svs_SecretName = ''sec1''\<rparr>\<rparr>\<rparr>,
        \<lparr>vol_Name = ''secret-1'', vol_VolumeSource = \<lparr>vs_Secret = Some \<lparr>svs_SecretName = ''sec1''\<rparr>\<rparr>\<rparr>]
   \<and> map c_VolumeMounts
         (ps_Containers (pt_Spec (ds_Template (d_Spec (fst (createDeployment_manifest sample_heap sample_spec)))))) =
       [[\<lparr>vm_Name = ''secret-0'', vm_MountPath = ''/a'', vm_ReadOnly = True\<rparr>,
         \<lparr>vm_Name = ''secret-1'', vm_MountPath = ''/b'', vm_ReadOnly = True\<rparr>]]"
proof -
  have n: "length (spec_SecretMounts sample_spec) = 2"
    "spec_SecretMounts sample_spec ! 0 = \<lparr>SecretName = ''sec1'', MountPath = ''/a''\<rparr>"
    "spec_SecretMounts sample_spec ! 1 = \<lparr>SecretName = ''sec1'', MountPath = ''/b''\<rparr>"
    "map SecretName (spec_SecretMounts sample_spec) = [''sec1'', ''sec1'']"
    by (simp_all add: sample_spec_def)
  have f: "fmt_d (int 0) = ''0''" "fmt_d (int 1) = ''1''"
    by (simp_all add: fmt_d_def digits.simps digit_def)
  let ?pod = "pt_Spec (ds_Template (d_Spec (fst (createDeployment_manifest sample_heap sample_spec))))"
  from createDeployment_secret_volumes [of sample_heap sample_spec]
  obtain c where c: "ps_Containers ?pod = [c]" "length (ps_Volumes ?pod) = 2" "length (c_VolumeMounts c) = 2"
    and each: "\<forall>i<2. ps_Volumes ?pod ! i =
                     \<lparr>vol_Name = ''secret-'' @ fmt_d (int i),
                      vol_VolumeSource =
                        \<lparr>vs_Secret = Some \<lparr>svs_SecretName = SecretName (spec_SecretMounts sample_spec ! i)\<rparr>\<rparr>\<rparr>
                 \<and> c_VolumeMounts c ! i =
                     \<lparr>vm_Name = ''secret-'' @ fmt_d (int i),
                      vm_MountPath = MountPath (spec_SecretMounts sample_spec ! i),
                      vm_ReadOnly = True\<rparr>"
    unfolding Let_def n by blast
  have two: "xs = [xs ! 0, xs ! 1]" if "length xs = 2" for xs :: "'a list"
    using that by (cases xs; cases "tl xs") auto
  have v: "ps_Volumes ?pod = [ps_Volumes ?pod ! 0, ps_Volumes ?pod ! 1]"
    and m: "c_VolumeMounts c = [c_VolumeMounts c ! 0, c_VolumeMounts c ! 1]"
    using c two by blast+
  have e0: "ps_Volumes ?pod ! 0 = \<lparr>vol_Name = ''secret-0'', vol_VolumeSource = \<lparr>vs_Secret = Some \<lparr>svs_SecretName = ''sec1''\<rparr>\<rparr>\<rparr>"
    "c_VolumeMounts c ! 0 = \<lparr>vm_Name = ''secret-0'', vm_MountPath = ''/a'', vm_ReadOnly = True\<rparr>"
    using each [rule_format, of 0] n f by simp_all
  have e1: "ps_Volumes ?pod ! 1 = \<lparr>vol_Name = ''secret-1'', vol_VolumeSource = \<lparr>vs_Secret = Some \<lparr>svs_SecretName = ''sec1''\<rparr>\<rparr>\<rparr>"
    "c_VolumeMounts c ! 1 = \<lparr>vm_Name = ''secret-1'', vm_MountPath = ''/b'', vm_ReadOnly = True\<rparr>"
    using each [rule_format, of 1] n f by simp_all
  show ?thesis
    using v m c(1) n(4) unfolding e0 e1 by simp
qed

section \<open>The port\<close>

text \<open>
  C7, as stated, does not hold of the deployer: a specification whose \<open>Port\<close> is unset
  carries the zero value, and the manifests built from it have container port, service
  port and target port 0, not 8080.
\<close>

theorem unset_port_counterexample:
  "spec_Port portless_spec = 0
   \<and> map (map cp_ContainerPort \<circ> c_Ports)
         (ps_Containers (pt_Spec (ds_Template (d_Spec (fst (createDeployment_manifest [] portless_spec)))))) = [[0]]
   \<and> map sp_Port (ss_Ports (s_Spec (fst (createService_manifest [] portless_spec)))) = [0]
   \<and> map (ios_IntVal \<circ> sp_TargetPort) (ss_Ports (s_Spec (fst (createService_manifest [] portless_spec)))) = [0]
   \<and> (0 :: int32) \<noteq> 8080"
  by (simp add: createDeployment_manifest_pod createService_manifest_ports portless_spec_def)

text \<open>
  C7, amended. The deployer applies no default: for every specification the container
  port of the workload manifest, and the port and the target port of the network
  manifest, are \<open>spec.Port\<close> as given. The default lives in the wizard: when the line read
  at its port prompt is empty once trimmed, \<open>deployServer\<close> sets \<open>spec.Port\<close> to 8080.
\<close>

theorem manifests_carry_spec_port:
  "map (map cp_ContainerPort \<circ> c_Ports)
      (ps_Containers (pt_Spec (ds_Template (d_Spec (fst (createDeployment_manifest h spec)))))) = [[spec_Port spec]]
   \<and> map sp_Port (ss_Ports (s_Spec (fst (createService_manifest h' spec)))) = [spec_Port spec]
   \<and> map sp_TargetPort (ss_Ports (s_Spec (fst (createService_manifest h' spec)))) =
       [\<lparr>ios_Type = intstr_Int, ios_IntVal = spec_Port spec, ios_StrVal = []\<rparr>]
   \<and> (TrimSpace line = [] \<longrightarrow> deployServer_port TrimSpace ParseInt line = Inr 8080)"
  by (simp add: createDeployment_manifest_pod createService_manifest_ports deployServer_port_def)

text \<open>
  A bare newline at the prompt gives port 8080, and a specification with that port gives
  manifests with 8080 in all three places.
\<close>

theorem manifests_carry_spec_port_witness:
  "TrimSpace_ascii [CHR 0x0A] = []
   \<and> deployServer_port TrimSpace_ascii ParseInt_rejecting [CHR 0x0A] = Inr 8080
   \<and> map (map cp_ContainerPort \<circ> c_Ports)
        (ps_Containers (pt_Spec (ds_Template (d_Spec
           (fst (createDeployment_manifest sample_heap (sample_spec\<lparr>spec_Port := 8080\<rparr>))))))) = [[8080]]
   \<and> map sp_Port (ss_Ports (s_Spec (fst (createService_manifest sample_heap (sample_spec\<lparr>spec_Port := 8080\<rparr>)))))
        = [8080]
   \<and> map (ios_IntVal \<circ> sp_TargetPort)
        (ss_Ports (s_Spec (fst (createService_manifest sample_heap (sample_spec\<lparr>spec_Port := 8080\<rparr>)))))
        = [8080]"
proof -
  have t: "TrimSpace_ascii [CHR 0x0A] = []"
    by (simp add: TrimSpace_ascii_def is_space_def)
  show ?thesis
    using manifests_carry_spec_port
      [of sample_heap "sample_spec\<lparr>spec_Port := 8080\<rparr>" sample_heap
          TrimSpace_ascii "[CHR 0x0A]" ParseInt_rejecting] t
    by (simp add: createService_manifest_ports)
qed

section \<open>Deletion\<close>

text \<open>
  C2. For every clientset, state, namespace and name, \<open>DeleteMCPServer\<close> first invokes
  the deletion of the deployment. If that returns an error, the error is returned under
  the context \<open>failed to delete deployment\<close>, the log of calls has gained that one call and
  no deletion of a service, and the cluster is as the failed call left it. If it
  succeeds and the deletion of the service returns an error, that error is returned under
  \<open>failed to delete service\<close>, the calls made are the two deletions and nothing else, and the
  cluster is as the two left it: the deployment stays deleted. If both succeed, no error
  is returned.
\<close>

theorem DeleteMCPServer_sequence:
  "(\<forall>e w. Deployments_Delete cs (cluster st) namespace name = (Some e, w) \<longrightarrow>
       DeleteMCPServer cs st namespace name =
         (Some (Errorf ''failed to delete deployment'' e),
          st\<lparr>cluster := w, calls := calls st @ [DeploymentsDelete namespace name]\<rparr>))
   \<and> (\<forall>w1 e w2. Deployments_Delete cs (cluster st) namespace name = (None, w1)
          \<and> Services_Delete cs w1 namespace name = (Some e, w2) \<longrightarrow>
       DeleteMCPServer cs st namespace name =
         (Some (Errorf ''failed to delete service'' e),
          st\<lparr>cluster := w2,
             calls := calls st @ [DeploymentsDelete namespace name, ServicesDelete namespace name]\<rparr>))
   \<and> (\<forall>w1 w2. Deployments_Delete cs (cluster st) namespace name = (None, w1)
          \<and> Services_Delete cs w1 namespace name = (None, w2) \<longrightarrow>
       DeleteMCPServer cs st namespace name =
         (None,
          st\<lparr>cluster := w2,
             calls := calls st @ [DeploymentsDelete namespace name, ServicesDelete namespace name]\<rparr>))"
  by (simp add: DeleteMCPServer_def Let_def)

text \<open>
  On the empty cluster the deployment is not found: one call, an error. On the cluster
  holding the deployment and no service, the deployment is deleted, the service is not
  found: two calls, an error, and a cluster without the deployment.
\<close>

theorem DeleteMCPServer_sequence_witness:
  "Deployments_Delete fake_clientset (cluster sample_state) ''ns1'' ''s1'' = (Some (ApiError ''not found''), empty_cluster)
   \<and> DeleteMCPServer fake_clientset sample_state ''ns1'' ''s1'' =
        (Some (Errorf ''failed to delete deployment'' (ApiError ''not found'')),
         sample_state\<lparr>cluster := empty_cluster, calls := [DeploymentsDelete ''ns1'' ''s1'']\<rparr>)
   \<and> Deployments_Delete fake_clientset (cluster orphan_state) ''ns1'' ''s1'' = (None, empty_cluster)
   \<and> Services_Delete fake_clientset empty_cluster ''ns1'' ''s1'' = (Some (ApiError ''not found''), empty_cluster)
   \<and> DeleteMCPServer fake_clientset orphan_state ''ns1'' ''s1'' =
        (Some (Errorf ''failed to delete service'' (ApiError ''not found'')),
         orphan_state\<lparr>cluster := empty_cluster,
                      calls := [DeploymentsDelete ''ns1'' ''s1'', ServicesDelete ''ns1'' ''s1'']\<rparr>)"
proof -
  have d1: "Deployments_Delete fake_clientset (cluster sample_state) ''ns1'' ''s1''
              = (Some (ApiError ''not found''), empty_cluster)"
    by (simp add: fake_clientset_def sample_state_def empty_cluster_def)
  have d2: "Deployments_Delete fake_clientset (cluster orphan_state) ''ns1'' ''s1'' = (None, empty_cluster)"
    by (simp add: fake_clientset_def orphan_state_def orphan_cluster_def empty_cluster_def named_def
          sample_deployment_meta)
  have s2: "Services_Delete fake_clientset empty_cluster ''ns1'' ''s1'' = (Some (ApiError ''not found''), empty_cluster)"
    by (simp add: fake_clientset_def empty_cluster_def)
  have c: "calls sample_state = []" "calls orphan_state = []"
    by (simp_all add: sample_state_def orphan_state_def)
  show ?thesis
    using DeleteMCPServer_sequence [of fake_clientset sample_state "''ns1''" "''s1''"]
      DeleteMCPServer_sequence [of fake_clientset orphan_state "''ns1''" "''s1''"]
      d1 d2 s2 c
    by simp
qed

section \<open>Availability\<close>

text \<open>
  C5. Whenever the listing of deployments succeeds, \<open>ListMCPServers\<close> returns one status
  per item, in order, and for every item: \<open>Available\<close> is true exactly when the item's
  count of available replicas is greater than 0, and when it is not, \<open>Endpoint\<close> is the
  empty string. The calls made are the listing followed by one lookup of a service for
  each available item, in order, and none for the others, whatever the cluster holds.
\<close>

theorem ListMCPServers_availability:
  assumes "Deployments_List cs (cluster st) namespace (MCPServerLabel @ ''=true'') = (Inr items, w)"
  shows "\<exists>servers.
           fst (ListMCPServers cs st namespace) = Inr servers
         \<and> length servers = length items
         \<and> (\<forall>i<length items.
               st_Available (servers ! i) = (0 < sint (dst_AvailableReplicas (d_Status (items ! i))))
             \<and> (\<not> 0 < sint (dst_AvailableReplicas (d_Status (items ! i))) \<longrightarrow> st_Endpoint (servers ! i) = []))
         \<and> calls (snd (ListMCPServers cs st namespace)) =
             calls st @ DeploymentsList namespace (MCPServerLabel @ ''=true'')
               # map (\<lambda>d. ServicesGet namespace (om_Name (d_ObjectMeta d)))
                   (filter (\<lambda>d. 0 < sint (dst_AvailableReplicas (d_Status d))) items)"
  by (simp add: ListMCPServers_listed [OF assms] list_servers_length list_servers_nth list_servers_calls
        server_status_fields server_status_unavailable)

text \<open>
  The sample: \<open>idle\<close> has no available replica and a service of its name exists; it is
  reported unavailable with an empty endpoint, and no lookup is made for it.
\<close>

theorem ListMCPServers_availability_witness:
  "Deployments_List fake_clientset (cluster listing_state) ''ns1'' (MCPServerLabel @ ''=true'')
     = (Inr listing_items, listing_cluster)
   \<and> map (\<lambda>d. sint (dst_AvailableReplicas (d_Status d))) listing_items = [1, 0, 2]
   \<and> list_ex (\<lambda>s. named ''ns1'' ''idle'' (s_ObjectMeta s)) (fake_services (cluster listing_state))
   \<and> (\<exists>servers. fst (ListMCPServers fake_clientset listing_state ''ns1'') = Inr servers
         \<and> map st_Name servers = [''svc-a'', ''idle'', ''lost'']
         \<and> map st_Available servers = [True, False, True]
         \<and> st_Endpoint (servers ! 1) = [])
   \<and> calls (snd (ListMCPServers fake_clientset listing_state ''ns1'')) =
        [DeploymentsList ''ns1'' (MCPServerLabel @ ''=true''),
         ServicesGet ''ns1'' ''svc-a'', ServicesGet ''ns1'' ''lost'']"
proof -
  have r: "map (\<lambda>d. sint (dst_AvailableReplicas (d_Status d))) listing_items = [1, 0, 2]"
    by (simp add: listing_items_def reported_fields)
  have e: "list_ex (\<lambda>s. named ''ns1'' ''idle'' (s_ObjectMeta s)) (fake_services (cluster listing_state))"
    by (simp add: listing_state_def listing_cluster_def exposing_def named_def)
  have c: "calls listing_state = []"
    by (simp add: listing_state_def)
  from ListMCPServers_availability [OF listing_list]
  obtain servers where s: "fst (ListMCPServers fake_clientset listing_state ''ns1'') = Inr servers"
    and l: "length servers = 3"
    and a: "\<forall>i<3. st_Available (servers ! i) = (0 < sint (dst_AvailableReplicas (d_Status (listing_items ! i))))
             \<and> (\<not> 0 < sint (dst_AvailableReplicas (d_Status (listing_items ! i))) \<longrightarrow> st_Endpoint (servers ! i) = [])"
    and k: "calls (snd (ListMCPServers fake_clientset listing_state ''ns1'')) =
             calls listing_state @ DeploymentsList ''ns1'' (MCPServerLabel @ ''=true'')
               # map (\<lambda>d. ServicesGet ''ns1'' (om_Name (d_ObjectMeta d)))
                   (filter (\<lambda>d. 0 < sint (dst_AvailableReplicas (d_Status d))) listing_items)"
    unfolding listing_items_nth(1) by blast
  have three: "xs = [xs ! 0, xs ! 1, xs ! 2]" if "length xs = 3" for xs :: "'a list"
    using that by (cases xs; cases "tl xs"; cases "tl (tl xs)") auto
  have n: "map st_Name servers = [''svc-a'', ''idle'', ''lost'']"
    using s listing_list
    by (auto simp: ListMCPServers_listed list_servers_Cons listing_items_def server_status_fields reported_fields
          simp del: list_servers.simps(2))
  have v: "map st_Available servers = [st_Available (servers ! 0), st_Available (servers ! 1), st_Available (servers ! 2)]"
    using three [of "map st_Available servers"] l by simp
  have "map st_Available servers = [True, False, True]"
    using a [rule_format, of 0] a [rule_format, of 1] a [rule_format, of 2]
    unfolding v by (simp add: listing_items_nth reported_fields)
  moreover have "st_Endpoint (servers ! 1) = []"
    using a [rule_format, of 1] by (simp add: listing_items_nth reported_fields)
  moreover have "calls (snd (ListMCPServers fake_clientset listing_state ''ns1'')) =
        [DeploymentsList ''ns1'' (MCPServerLabel @ ''=true''),
         ServicesGet ''ns1'' ''svc-a'', ServicesGet ''ns1'' ''lost'']"
    unfolding k c by (simp add: listing_items_def reported_fields)
  ultimately show ?thesis
    using listing_list r e s n by simp
qed

section \<open>The endpoint\<close>

text \<open>
  C6. For every deployment, in every state: when the deployment is available and the
  lookup of the service of its name returns a service with at least one port, \<open>Endpoint\<close>
  is the name of that service, a colon and its first port in decimal; when the lookup
  returns an error, \<open>Endpoint\<close> is empty. Whenever the listing of deployments succeeds,
  \<open>ListMCPServers\<close> returns a list, each of its entries being the status built for its item
  in the state the items before it left; it returns an error, under the context
  \<open>failed to list deployments\<close>, when the listing of deployments returns one.
\<close>

theorem ListMCPServers_endpoint:
  "(\<forall>service w port ports.
       0 < sint (dst_AvailableReplicas (d_Status d))
     \<and> Services_Get cs (cluster st) namespace (om_Name (d_ObjectMeta d)) = (Inr service, w)
     \<and> ss_Ports (s_Spec service) = port # ports \<longrightarrow>
       st_Endpoint (fst (server_status cs namespace st d)) =
         om_Name (s_ObjectMeta service) @ '':'' @ fmt_d (sint (sp_Port port)))
   \<and> (\<forall>err w.
       Services_Get cs (cluster st) namespace (om_Name (d_ObjectMeta d)) = (Inl err, w) \<longrightarrow>
       st_Endpoint (fst (server_status cs namespace st d)) = [])
   \<and> (\<forall>items w.
       Deployments_List cs (cluster st) namespace (MCPServerLabel @ ''=true'') = (Inr items, w) \<longrightarrow>
       (\<exists>servers.
          fst (ListMCPServers cs st namespace) = Inr servers
        \<and> length servers = length items
        \<and> (\<forall>i<length items.
              servers ! i =
                fst (server_status cs namespace
                       (snd (list_servers cs namespace (take i items) []
                               (st\<lparr>cluster := w,
                                   calls := calls st @ [DeploymentsList namespace (MCPServerLabel @ ''=true'')]\<rparr>)))
                       (items ! i)))))
   \<and> (\<forall>err w.
       Deployments_List cs (cluster st) namespace (MCPServerLabel @ ''=true'') = (Inl err, w) \<longrightarrow>
       fst (ListMCPServers cs st namespace) = Inl (Errorf ''failed to list deployments'' err))"
proof (intro conjI allI impI)
  fix service w port ports
  assume "0 < sint (dst_AvailableReplicas (d_Status d))
     \<and> Services_Get cs (cluster st) namespace (om_Name (d_ObjectMeta d)) = (Inr service, w)
     \<and> ss_Ports (s_Spec service) = port # ports"
  then show "st_Endpoint (fst (server_status cs namespace st d)) =
         om_Name (s_ObjectMeta service) @ '':'' @ fmt_d (sint (sp_Port port))"
    by (simp add: server_status_endpoint_found)
next
  fix err w
  assume "Services_Get cs (cluster st) namespace (om_Name (d_ObjectMeta d)) = (Inl err, w)"
  then show "st_Endpoint (fst (server_status cs namespace st d)) = []"
    by (rule server_status_endpoint_failed)
next
  fix items w
  assume l: "Deployments_List cs (cluster st) namespace (MCPServerLabel @ ''=true'') = (Inr items, w)"
  show "\<exists>servers.
          fst (ListMCPServers cs st namespace) = Inr servers
        \<and> length servers = length items
        \<and> (\<forall>i<length items.
              servers ! i =
                fst (server_status cs namespace
                       (snd (list_servers cs namespace (take i items) []
                               (st\<lparr>cluster := w,
                                   calls := calls st @ [DeploymentsList namespace (MCPServerLabel @ ''=true'')]\<rparr>)))
                       (items ! i)))"
    by (simp add: ListMCPServers_listed [OF l] list_servers_length list_servers_nth)
next
  fix err w
  assume "Deployments_List cs (cluster st) namespace (MCPServerLabel @ ''=true'') = (Inl err, w)"
  then show "fst (ListMCPServers cs st namespace) = Inl (Errorf ''failed to list deployments'' err)"
    by (simp add: ListMCPServers_failed)
qed

text \<open>
  The sample: \<open>svc-a\<close> is available and its service exposes port 9000, so its endpoint is
  \<open>svc-a:9000\<close>; \<open>lost\<close> is available and has no service, so its endpoint is empty and the
  listing still succeeds; and when the listing of deployments is out of order,
  \<open>ListMCPServers\<close> returns its error.
\<close>

theorem ListMCPServers_endpoint_witness:
  "0 < sint (dst_AvailableReplicas (d_Status (listing_items ! 0)))
   \<and> Services_Get fake_clientset (cluster listing_state) ''ns1'' (om_Name (d_ObjectMeta (listing_items ! 0)))
        = (Inr (exposing ''svc-a'' 9000), listing_cluster)
   \<and> map sp_Port (ss_Ports (s_Spec (exposing ''svc-a'' 9000))) = [9000]
   \<and> st_Endpoint (fst (server_status fake_clientset ''ns1'' listing_state (listing_items ! 0))) = ''svc-a:9000''
   \<and> Services_Get fake_clientset (cluster listing_state) ''ns1'' (om_Name (d_ObjectMeta (listing_items ! 2)))
        = (Inl (ApiError ''not found''), listing_cluster)
   \<and> st_Endpoint (fst (server_status fake_clientset ''ns1'' listing_state (listing_items ! 2))) = []
   \<and> (\<exists>servers. fst (ListMCPServers fake_clientset listing_state ''ns1'') = Inr servers
         \<and> map st_Endpoint servers = [''svc-a:9000'', [], []])
   \<and> Deployments_List unlistable_clientset (cluster listing_state) ''ns1'' (MCPServerLabel @ ''=true'')
        = (Inl (ApiError ''unavailable''), listing_cluster)
   \<and> fst (ListMCPServers unlistable_clientset listing_state ''ns1'')
        = Inl (Errorf ''failed to list deployments'' (ApiError ''unavailable''))"
proof -
  have a: "0 < sint (dst_AvailableReplicas (d_Status (listing_items ! 0)))"
    by (simp add: listing_items_nth reported_fields)
  have g0: "Services_Get fake_clientset (cluster listing_state) ''ns1'' (om_Name (d_ObjectMeta (listing_items ! 0)))
        = (Inr (exposing ''svc-a'' 9000), listing_cluster)"
    by (simp add: listing_items_nth reported_fields fake_clientset_def listing_state_def listing_cluster_def
          exposing_def named_def)
  have p: "ss_Ports (s_Spec (exposing ''svc-a'' 9000)) =
             [\<lparr>sp_Name = ''mcp'', sp_Port = 9000, sp_TargetPort = FromInt (sint (9000 :: int32)),
               sp_Protocol = ProtocolTCP\<rparr>]"
    "om_Name (s_ObjectMeta (exposing ''svc-a'' 9000)) = ''svc-a''"
    by (simp_all add: exposing_def)
  have g2: "Services_Get fake_clientset (cluster listing_state) ''ns1'' (om_Name (d_ObjectMeta (listing_items ! 2)))
        = (Inl (ApiError ''not found''), listing_cluster)"
    by (simp add: listing_items_nth reported_fields fake_clientset_def listing_state_def listing_cluster_def
          exposing_def named_def)
  have u: "Deployments_List unlistable_clientset (cluster listing_state) ''ns1'' (MCPServerLabel @ ''=true'')
        = (Inl (ApiError ''unavailable''), listing_cluster)"
    by (simp add: unlistable_clientset_def listing_state_def)
  note t0 = ListMCPServers_endpoint [of "listing_items ! 0" fake_clientset listing_state "''ns1''"]
  note t2 = ListMCPServers_endpoint [of "listing_items ! 2" fake_clientset listing_state "''ns1''"]
  note tu = ListMCPServers_endpoint [of "listing_items ! 0" unlistable_clientset listing_state "''ns1''"]
  have e0: "st_Endpoint (fst (server_status fake_clientset ''ns1'' listing_state (listing_items ! 0))) = ''svc-a:9000''"
    using t0 [THEN conjunct1, rule_format, OF conjI [OF a conjI [OF g0 p(1)]]]
    by (simp add: p(2) fmt_9000)
  have e2: "st_Endpoint (fst (server_status fake_clientset ''ns1'' listing_state (listing_items ! 2))) = []"
    using t2 [THEN conjunct2, THEN conjunct1, rule_format, OF g2] .
  have f: "fst (ListMCPServers unlistable_clientset listing_state ''ns1'')
        = Inl (Errorf ''failed to list deployments'' (ApiError ''unavailable''))"
    using tu [THEN conjunct2, THEN conjunct2, THEN conjunct2, rule_format, OF u] .
  show ?thesis
    using a g0 p(1) e0 g2 e2 u f by (simp add: listing_result)
qed

section \<open>The fields copied\<close>



end
